theory Spec2Isabelle
  imports Complex_Main
begin

section \<open>The fertilizer blend solver: \<open>src/services/solver.ts\<close>\<close>

text \<open>
  \<open>calculateMix\<close> turns a blend request into a mixed-integer linear program, hands it
  to glpk.js and turns the solver's answer into a recipe. The development follows the
  source line by line.

  Conventions of the embedding.
  \<^item> A JavaScript \<open>number\<close> that the function receives (targets, weights, percentages,
    solver values) is a \<open>real\<close>: finite, without rounding. The one operation of the
    source that leaves the finite numbers, the division of the nutrient totals by the
    actual weight, is written out with its \<open>NaN\<close> and infinite results (\<open>js_div\<close>).
  \<^item> Objects that the caller can reach (the params object, the \<open>Fertilizer[]\<close> arrays
    and the \<open>Fertilizer\<close> objects) live in an explicit store and are handled through
    references, so that reading, allocating and writing are distinguished. Arrays and
    objects of other types that the function creates for itself (the program handed to
    the solver, the recipe) are values.
  \<^item> A thrown exception is the \<open>Inl\<close> of a sum type; \<open>console.error\<close> is not modelled.
  \<^item> glpk.js is the environment: its factory \<open>GLPK()\<close> and its \<open>solve\<close> method are
    parameters of \<open>calculateMix\<close>, each of which may throw; its enumeration constants
    are datatypes.
  \<^item> \<open>fertilizerMap\<close> of the source is written and never read; it is left out.
\<close>

subsection \<open>Types of \<open>src/types/index.ts\<close> and of the solver interface\<close>

type_synonym ref = nat

record Fertilizer =
  fert_id :: string
  fert_name :: string
  fert_n :: real
  fert_p :: real
  fert_k :: real

record RecipeIngredient =
  fertilizer :: ref
  amount :: real

record CalculateMixParams =
  targetN :: real
  targetP :: real
  targetK :: real
  totalWeight :: real
  tolerance :: real
  increment :: real
  availableFertilizers :: ref

text \<open>The result of a JavaScript division, which need not be finite.\<close>

datatype jsnum = Fin real | PosInf | NegInf | NaN

record NPK =
  npk_n :: jsnum
  npk_p :: jsnum
  npk_k :: jsnum

record CalculationResult =
  recipe :: "RecipeIngredient list option"
  error :: "string option"
  actualNPK :: "NPK option"
  actualWeight :: "real option"

text \<open>What \<open>catch (err)\<close> can receive: an \<open>Error\<close> with its message, or any other
  value, kept as its \<open>String(err)\<close>.\<close>

datatype js_thrown = JsError string | JsValue string

text \<open>The constants of glpk.js that the source uses or compares against.\<close>

datatype glp_direction = GLP_MIN | GLP_MAX

datatype glp_bnd = GLP_FR | GLP_LO | GLP_UP | GLP_DB | GLP_FX

datatype glp_status = GLP_UNDEF | GLP_FEAS | GLP_INFEAS | GLP_NOFEAS | GLP_OPT | GLP_UNBND

record lp_var =
  var_name :: string
  coef :: real

record lp_bnds =
  bnd_type :: glp_bnd
  lb :: "real option"
  ub :: "real option"

record lp_constraint =
  c_name :: string
  c_vars :: "lp_var list"
  bnds :: lp_bnds

record lp_bound =
  b_name :: string
  b_type :: glp_bnd
  b_lb :: real
  b_ub :: real

record lp_objective =
  direction :: glp_direction
  obj_name :: string
  obj_vars :: "lp_var list"

record lp =
  lp_name :: string
  objective :: lp_objective
  subjectTo :: "lp_constraint list"
  bounds :: "lp_bound list"
  binaries :: "string list"
  generals :: "string list"

text \<open>\<open>result.result\<close> of \<open>glpk.solve\<close>: the status and the values of the variables
  (\<open>vars[name]\<close> is \<open>undefined\<close> for a name that is not there).\<close>

record glpk_result =
  status :: glp_status
  vars :: "string \<rightharpoonup> real"

text \<open>The object that \<open>GLPK()\<close> resolves to, as far as the source uses it: \<open>solve\<close>.\<close>

type_synonym glpk = "lp \<Rightarrow> js_thrown + glpk_result"

subsection \<open>The store\<close>

record store =
  params_heap :: "ref \<Rightarrow> CalculateMixParams"
  fert_heap :: "ref \<Rightarrow> Fertilizer"
  array_heap :: "ref \<Rightarrow> ref list"
  next_array :: ref

text \<open>Allocation of a new \<open>Fertilizer[]\<close>: the arrays at references below
  \<open>next_array\<close> are the ones that exist.\<close>

definition new_array :: "ref list \<Rightarrow> store \<Rightarrow> ref \<times> store" where
  "new_array xs s =
     (next_array s,
      s\<lparr>array_heap := (array_heap s)(next_array s := xs), next_array := Suc (next_array s)\<rparr>)"

text \<open>\<open>Array.prototype.filter\<close> on a \<open>Fertilizer[]\<close>: reads the array and its elements,
  allocates the result.\<close>

definition array_filter :: "(Fertilizer \<Rightarrow> bool) \<Rightarrow> ref \<Rightarrow> store \<Rightarrow> ref \<times> store" where
  "array_filter cb a s = new_array (filter (\<lambda>r. cb (fert_heap s r)) (array_heap s a)) s"

subsection \<open>Strings and numbers\<close>

definition digit_char :: "nat \<Rightarrow> char" where
  "digit_char d = ''0123456789'' ! d"

text \<open>The decimal rendering of an index in a template string; \<open>digit_char\<close> is only
  applied to numbers below 10.\<close>

fun show_nat :: "nat \<Rightarrow> string" where
  "show_nat n = (if n < 10 then [digit_char n] else show_nat (n div 10) @ [digit_char (n mod 10)])"

declare show_nat.simps [simp del]

definition x_var :: "nat \<Rightarrow> string" where
  "x_var index = ''x'' @ show_nat index"

definition z_var :: "nat \<Rightarrow> string" where
  "z_var index = ''z'' @ show_nat index"

definition y_var :: "nat \<Rightarrow> string" where
  "y_var index = ''y'' @ show_nat index"

definition epsilon :: real where
  "epsilon = 0.001"

text \<open>\<open>a / b\<close> on finite numbers, with the non-finite results of a zero divisor.\<close>

definition js_div :: "real \<Rightarrow> real \<Rightarrow> jsnum" where
  "js_div a b =
     (if b \<noteq> 0 then Fin (a / b)
      else if a = 0 then NaN
      else if a > 0 then PosInf else NegInf)"

text \<open>\<open>v * c\<close> for a finite \<open>c\<close>.\<close>

fun js_times :: "jsnum \<Rightarrow> real \<Rightarrow> jsnum" where
  "js_times (Fin x) c = Fin (x * c)"
| "js_times PosInf c = (if c > 0 then PosInf else if c < 0 then NegInf else NaN)"
| "js_times NegInf c = (if c > 0 then NegInf else if c < 0 then PosInf else NaN)"
| "js_times NaN c = NaN"

text \<open>\<open>v || d\<close>: the falsy numbers are \<open>0\<close> and \<open>NaN\<close>.\<close>

fun js_or :: "jsnum \<Rightarrow> real \<Rightarrow> jsnum" where
  "js_or (Fin x) d = (if x = 0 then Fin d else Fin x)"
| "js_or NaN d = Fin d"
| "js_or v d = v"

subsection \<open>The feasibility pre-filter (lines 37 to 42)\<close>

text \<open>The callback of \<open>fertilizers.filter\<close>, with its three early returns.\<close>

definition filter_callback :: "CalculateMixParams \<Rightarrow> Fertilizer \<Rightarrow> bool" where
  "filter_callback pr f =
     (if targetN pr = 0 \<and> fert_n f > 0 then False
      else if targetP pr = 0 \<and> fert_p f > 0 then False
      else if targetK pr = 0 \<and> fert_k f > 0 then False
      else True)"

text \<open>The filter statement: the new array and the store that holds it.\<close>

definition prefilter :: "ref \<Rightarrow> store \<Rightarrow> ref \<times> store" where
  "prefilter params s =
     (let pr = params_heap s params;
          fertilizers = availableFertilizers pr
      in array_filter (filter_callback pr) fertilizers s)"

subsection \<open>The linear program (lines 52 to 163)\<close>

text \<open>What one round of \<open>availableFertilizers.forEach\<close> pushes to \<open>lp.bounds\<close>.\<close>

definition fertilizer_bounds :: "CalculateMixParams \<Rightarrow> nat \<Rightarrow> lp_bound list" where
  "fertilizer_bounds pr index =
     [\<lparr>b_name = x_var index, b_type = GLP_DB, b_lb = 0, b_ub = totalWeight pr\<rparr>,
      \<lparr>b_name = z_var index, b_type = GLP_DB, b_lb = 0,
       b_ub = of_int \<lfloor>totalWeight pr / increment pr\<rfloor>\<rparr>,
      \<lparr>b_name = y_var index, b_type = GLP_DB, b_lb = 0, b_ub = 1\<rparr>]"

text \<open>C1 of the source, the increment constraint \<open>x_f - increment * z_f = 0\<close>.\<close>

definition c_increment :: "CalculateMixParams \<Rightarrow> nat \<Rightarrow> lp_constraint" where
  "c_increment pr index =
     \<lparr>c_name = ''c_increment_'' @ show_nat index,
      c_vars = [\<lparr>var_name = x_var index, coef = 1\<rparr>,
                \<lparr>var_name = z_var index, coef = - increment pr\<rparr>],
      bnds = \<lparr>bnd_type = GLP_FX, lb = Some 0, ub = Some 0\<rparr>\<rparr>"

text \<open>C2 of the source, the Big-M upper bound \<open>x_f - M * y_f <= 0\<close>, with
  \<open>M = totalWeight * 2\<close>.\<close>

definition c_bigM_upper :: "CalculateMixParams \<Rightarrow> nat \<Rightarrow> lp_constraint" where
  "c_bigM_upper pr index =
     (let M = totalWeight pr * 2 in
      \<lparr>c_name = ''c_bigM_upper_'' @ show_nat index,
       c_vars = [\<lparr>var_name = x_var index, coef = 1\<rparr>,
                 \<lparr>var_name = y_var index, coef = - M\<rparr>],
       bnds = \<lparr>bnd_type = GLP_UP, lb = None, ub = Some 0\<rparr>\<rparr>)"

text \<open>C3 of the source, the Big-M lower bound \<open>x_f - epsilon * y_f >= 0\<close>.\<close>

definition c_bigM_lower :: "nat \<Rightarrow> lp_constraint" where
  "c_bigM_lower index =
     \<lparr>c_name = ''c_bigM_lower_'' @ show_nat index,
      c_vars = [\<lparr>var_name = x_var index, coef = 1\<rparr>,
                \<lparr>var_name = y_var index, coef = - epsilon\<rparr>],
      bnds = \<lparr>bnd_type = GLP_LO, lb = Some 0, ub = None\<rparr>\<rparr>"

definition fertilizer_constraints :: "CalculateMixParams \<Rightarrow> nat \<Rightarrow> lp_constraint list" where
  "fertilizer_constraints pr index = [c_increment pr index, c_bigM_upper pr index, c_bigM_lower index]"

text \<open>C4 of the source, \<open>sum(x_f) = totalWeight\<close>.\<close>

definition c_total_weight :: "CalculateMixParams \<Rightarrow> Fertilizer list \<Rightarrow> lp_constraint" where
  "c_total_weight pr fs =
     \<lparr>c_name = ''c_total_weight'',
      c_vars = map (\<lambda>(index, _). \<lparr>var_name = x_var index, coef = 1\<rparr>) (enumerate 0 fs),
      bnds = \<lparr>bnd_type = GLP_FX, lb = Some (totalWeight pr), ub = Some (totalWeight pr)\<rparr>\<rparr>"

text \<open>
  The three nutrient blocks (lines 133 to 163) are the same text up to the nutrient: the
  name of the constraint, the target and the field of the fertilizer. \<open>pct\<close> is the
  field, \<open>target\<close> the target percentage.
\<close>

definition is_constraint_necessary :: "(Fertilizer \<Rightarrow> real) \<Rightarrow> real \<Rightarrow> Fertilizer list \<Rightarrow> bool" where
  "is_constraint_necessary pct target fs = (\<not> (target = 0 \<and> list_all (\<lambda>f. pct f = 0) fs))"

definition c_tolerance ::
    "string \<Rightarrow> (Fertilizer \<Rightarrow> real) \<Rightarrow> real \<Rightarrow> CalculateMixParams \<Rightarrow> Fertilizer list \<Rightarrow> lp_constraint" where
  "c_tolerance nm pct target pr fs =
     (let toleranceMultiplier = tolerance pr / 100;
          targetAmount = totalWeight pr * (target / 100) in
      \<lparr>c_name = nm,
       c_vars = map (\<lambda>(index, f). \<lparr>var_name = x_var index, coef = pct f / 100\<rparr>) (enumerate 0 fs),
       bnds = \<lparr>bnd_type = GLP_DB,
               lb = Some (targetAmount * (1 - toleranceMultiplier)),
               ub = Some (targetAmount * (1 + toleranceMultiplier))\<rparr>\<rparr>)"

definition isNitrogenConstraintNecessary :: "CalculateMixParams \<Rightarrow> Fertilizer list \<Rightarrow> bool" where
  "isNitrogenConstraintNecessary pr fs = is_constraint_necessary fert_n (targetN pr) fs"

definition isPhosphorusConstraintNecessary :: "CalculateMixParams \<Rightarrow> Fertilizer list \<Rightarrow> bool" where
  "isPhosphorusConstraintNecessary pr fs = is_constraint_necessary fert_p (targetP pr) fs"

definition isPotassiumConstraintNecessary :: "CalculateMixParams \<Rightarrow> Fertilizer list \<Rightarrow> bool" where
  "isPotassiumConstraintNecessary pr fs = is_constraint_necessary fert_k (targetK pr) fs"

definition c_N_tolerance :: "CalculateMixParams \<Rightarrow> Fertilizer list \<Rightarrow> lp_constraint" where
  "c_N_tolerance pr fs = c_tolerance ''c_N_tolerance'' fert_n (targetN pr) pr fs"

definition c_P_tolerance :: "CalculateMixParams \<Rightarrow> Fertilizer list \<Rightarrow> lp_constraint" where
  "c_P_tolerance pr fs = c_tolerance ''c_P_tolerance'' fert_p (targetP pr) pr fs"

definition c_K_tolerance :: "CalculateMixParams \<Rightarrow> Fertilizer list \<Rightarrow> lp_constraint" where
  "c_K_tolerance pr fs = c_tolerance ''c_K_tolerance'' fert_k (targetK pr) pr fs"

text \<open>The program as it stands when \<open>glpk.solve\<close> is called; \<open>fs\<close> are the fertilizers
  that survived the filter, in their order.\<close>

definition build_lp :: "CalculateMixParams \<Rightarrow> Fertilizer list \<Rightarrow> lp" where
  "build_lp pr fs =
     \<lparr>lp_name = ''Fertilizer-Mix'',
      objective =
        \<lparr>direction = GLP_MIN, obj_name = ''count'',
         obj_vars = map (\<lambda>(index, _). \<lparr>var_name = y_var index, coef = 1\<rparr>) (enumerate 0 fs)\<rparr>,
      subjectTo =
        concat (map (\<lambda>(index, _). fertilizer_constraints pr index) (enumerate 0 fs))
        @ [c_total_weight pr fs]
        @ (if isNitrogenConstraintNecessary pr fs then [c_N_tolerance pr fs] else [])
        @ (if isPhosphorusConstraintNecessary pr fs then [c_P_tolerance pr fs] else [])
        @ (if isPotassiumConstraintNecessary pr fs then [c_K_tolerance pr fs] else []),
      bounds = concat (map (\<lambda>(index, _). fertilizer_bounds pr index) (enumerate 0 fs)),
      binaries = map (\<lambda>(index, _). y_var index) (enumerate 0 fs),
      generals = map (\<lambda>(index, _). z_var index) (enumerate 0 fs)\<rparr>"

subsection \<open>Reading the solution (lines 168 to 208)\<close>

text \<open>The local variables that the second \<open>forEach\<close> updates.\<close>

record tally =
  t_recipe :: "RecipeIngredient list"
  actualN :: real
  actualP :: real
  actualK :: real
  t_actualWeight :: real

text \<open>One round of the \<open>forEach\<close> at line 172; \<open>x_val && x_val > epsilon\<close> fails for an
  undefined and for a zero \<open>x_val\<close>.\<close>

definition collect :: "store \<Rightarrow> (string \<rightharpoonup> real) \<Rightarrow> nat \<times> ref \<Rightarrow> tally \<Rightarrow> tally" where
  "collect s vs = (\<lambda>(index, r) t.
     (let f = fert_heap s r in
      case vs (x_var index) of
        None \<Rightarrow> t
      | Some x_val \<Rightarrow>
          if x_val \<noteq> 0 \<and> x_val > epsilon
          then t\<lparr>t_recipe := t_recipe t @ [\<lparr>fertilizer = r, amount = x_val\<rparr>],
                 actualN := actualN t + x_val * fert_n f / 100,
                 actualP := actualP t + x_val * fert_p f / 100,
                 actualK := actualK t + x_val * fert_k f / 100,
                 t_actualWeight := t_actualWeight t + x_val\<rparr>
          else t))"

definition tally_of :: "store \<Rightarrow> (string \<rightharpoonup> real) \<Rightarrow> ref list \<Rightarrow> tally" where
  "tally_of s vs rs =
     fold (collect s vs) (enumerate 0 rs)
       \<lparr>t_recipe = [], actualN = 0, actualP = 0, actualK = 0, t_actualWeight = 0\<rparr>"

definition finalNPK :: "tally \<Rightarrow> NPK" where
  "finalNPK t =
     \<lparr>npk_n = js_or (js_times (js_div (actualN t) (t_actualWeight t)) 100) 0,
      npk_p = js_or (js_times (js_div (actualP t) (t_actualWeight t)) 100) 0,
      npk_k = js_or (js_times (js_div (actualK t) (t_actualWeight t)) 100) 0\<rparr>"

definition finalRecipe :: "tally \<Rightarrow> RecipeIngredient list" where
  "finalRecipe t = filter (\<lambda>item. amount item > epsilon) (t_recipe t)"

definition failure :: "string \<Rightarrow> CalculationResult" where
  "failure msg = \<lparr>recipe = None, error = Some msg, actualNPK = None, actualWeight = None\<rparr>"

text \<open>The number that the template string prints for a status: the value of the
  constant in glpk.h.\<close>

fun status_text :: "glp_status \<Rightarrow> string" where
  "status_text GLP_UNDEF = ''1''"
| "status_text GLP_FEAS = ''2''"
| "status_text GLP_INFEAS = ''3''"
| "status_text GLP_NOFEAS = ''4''"
| "status_text GLP_OPT = ''5''"
| "status_text GLP_UNBND = ''6''"

text \<open>The body of the \<open>try\<close> after \<open>glpk.solve\<close> has returned. The first value of
  \<open>errorMessage\<close>, \<open>No feasible solution found.\<close>, is overwritten on every path and
  does not show.\<close>

definition read_result :: "store \<Rightarrow> ref list \<Rightarrow> glpk_result \<Rightarrow> CalculationResult" where
  "read_result s rs result =
     (if status result = GLP_OPT \<or> status result = GLP_FEAS
      then (let t = tally_of s (vars result) rs in
            \<lparr>recipe = Some (finalRecipe t), error = None,
             actualNPK = Some (finalNPK t), actualWeight = Some (t_actualWeight t)\<rparr>)
      else failure
        (if status result = GLP_NOFEAS
         then ''No feasible solution could be found for the given parameters. Try adjusting NPK targets, tolerance, or available fertilizers.''
         else if status result = GLP_UNBND
         then ''The problem is unbounded (variables can increase indefinitely without violating constraints).''
         else if status result = GLP_UNDEF
         then ''The problem is undefined (e.g., due to contradictory constraints or numerical instability).''
         else ''Solver finished with status: '' @ status_text (status result)))"

text \<open>The \<open>catch\<close> block.\<close>

definition catch_result :: "js_thrown \<Rightarrow> CalculationResult" where
  "catch_result err =
     failure (''An unexpected error occurred during calculation: ''
              @ (case err of JsError message \<Rightarrow> message | JsValue str \<Rightarrow> str))"

subsection \<open>\<open>calculateMix\<close>\<close>

text \<open>
  \<open>GLPK\<close> is what \<open>await GLPK()\<close> does: it throws or yields the solver. \<open>params\<close> is the
  reference to the params object. The result is what the promise settles to (\<open>Inl\<close>
  for a rejection) together with the store after the call.
\<close>

definition calculateMix ::
    "(js_thrown + glpk) \<Rightarrow> ref \<Rightarrow> store \<Rightarrow> (js_thrown + CalculationResult) \<times> store" where
  "calculateMix GLPK params s =
     (let pr = params_heap s params;
          (available, s') = prefilter params s
      in
        if length (array_heap s' available) = 0
        then (Inr (failure ''No fertilizers selected for mixing.''), s')
        else if totalWeight pr \<le> 0 \<or> increment pr \<le> 0
        then (Inr (failure ''Total weight and increment must be positive.''), s')
        else
          (case GLPK of
             Inl err \<Rightarrow> (Inl err, s')
           | Inr glpk \<Rightarrow>
               (let lp = build_lp pr (map (fert_heap s') (array_heap s' available)) in
                (case glpk lp of
                   Inl err \<Rightarrow> (Inr (catch_result err), s')
                 | Inr result \<Rightarrow> (Inr (read_result s' (array_heap s' available) result), s')))))"

subsection \<open>Notions used to state the properties\<close>

text \<open>The fertilizers that survive the filter, as the list of their references.\<close>

definition survivors :: "ref \<Rightarrow> store \<Rightarrow> ref list" where
  "survivors params s = array_heap (snd (prefilter params s)) (fst (prefilter params s))"

text \<open>The program that a request submits to the solver.\<close>

definition submitted_lp :: "ref \<Rightarrow> store \<Rightarrow> lp" where
  "submitted_lp params s = build_lp (params_heap s params) (map (fert_heap s) (survivors params s))"

text \<open>
  The meaning that GLPK gives to a row: the linear form of its coefficients, at an
  assignment \<open>\<sigma>\<close> of the variables, lies within the bounds that the type selects.
\<close>

definition row_value :: "(string \<Rightarrow> real) \<Rightarrow> lp_var list \<Rightarrow> real" where
  "row_value \<sigma> vs = sum_list (map (\<lambda>v. coef v * \<sigma> (var_name v)) vs)"

definition above_lb :: "lp_bnds \<Rightarrow> real \<Rightarrow> bool" where
  "above_lb b v = (case lb b of None \<Rightarrow> True | Some l \<Rightarrow> l \<le> v)"

definition below_ub :: "lp_bnds \<Rightarrow> real \<Rightarrow> bool" where
  "below_ub b v = (case ub b of None \<Rightarrow> True | Some u \<Rightarrow> v \<le> u)"

definition satisfies :: "(string \<Rightarrow> real) \<Rightarrow> lp_constraint \<Rightarrow> bool" where
  "satisfies \<sigma> c =
     (let v = row_value \<sigma> (c_vars c); b = bnds c in
      case bnd_type b of
        GLP_FR \<Rightarrow> True
      | GLP_LO \<Rightarrow> above_lb b v
      | GLP_UP \<Rightarrow> below_ub b v
      | GLP_DB \<Rightarrow> above_lb b v \<and> below_ub b v
      | GLP_FX \<Rightarrow> above_lb b v \<and> below_ub b v)"

text \<open>The entries that the \<open>forEach\<close> at line 172 is to push: for each surviving
  fertilizer, in order, one entry if the value of its amount variable exceeds
  \<open>epsilon\<close>.\<close>

definition above_epsilon :: "(string \<rightharpoonup> real) \<Rightarrow> (nat \<times> ref) list \<Rightarrow> RecipeIngredient list" where
  "above_epsilon vs irs =
     concat (map (\<lambda>(index, r).
       case vs (x_var index) of
         None \<Rightarrow> []
       | Some x_val \<Rightarrow> if x_val > epsilon then [\<lparr>fertilizer = r, amount = x_val\<rparr>] else []) irs)"

text \<open>The totals of a recipe: its weight and, for a nutrient given by its field \<open>pct\<close>,
  the amount of the nutrient that it holds.\<close>

definition weight_total :: "RecipeIngredient list \<Rightarrow> real" where
  "weight_total r = sum_list (map amount r)"

definition nutrient_total :: "store \<Rightarrow> (Fertilizer \<Rightarrow> real) \<Rightarrow> RecipeIngredient list \<Rightarrow> real" where
  "nutrient_total s pct r =
     sum_list (map (\<lambda>item. amount item * pct (fert_heap s (fertilizer item)) / 100) r)"

text \<open>The actual percentage as the specification defines it: total over weight times
  100, and 0 when the weight is 0.\<close>

definition spec_percentage :: "real \<Rightarrow> real \<Rightarrow> real" where
  "spec_percentage tot w = (if w = 0 then 0 else tot / w * 100)"

text \<open>The sentence of the specification about the pre-filter, in its own words: for
  every nutrient whose target is exactly zero, the percentage of the ingredient is zero.\<close>

definition spec_prefilter_keeps :: "CalculateMixParams \<Rightarrow> Fertilizer \<Rightarrow> bool" where
  "spec_prefilter_keeps pr f =
     ((targetN pr = 0 \<longrightarrow> fert_n f = 0) \<and>
      (targetP pr = 0 \<longrightarrow> fert_p f = 0) \<and>
      (targetK pr = 0 \<longrightarrow> fert_k f = 0))"

subsection \<open>Requests to evaluate on\<close>

text \<open>
  Three fertilizers of the default library in one array, and a request for a 32-23-0
  blend of 1000 g with tolerance 5 and increment 10. The zero target for potassium
  removes Potassium Chloride; 500 g of Urea and 500 g of Diammonium Phosphate meet the
  request.
\<close>

definition urea :: Fertilizer where
  "urea = \<lparr>fert_id = ''4d0f7f41'', fert_name = ''Urea'', fert_n = 46, fert_p = 0, fert_k = 0\<rparr>"

definition dap :: Fertilizer where
  "dap = \<lparr>fert_id = ''4d0f7f43'', fert_name = ''Diammonium Phosphate'',
           fert_n = 18, fert_p = 46, fert_k = 0\<rparr>"

definition potash :: Fertilizer where
  "potash = \<lparr>fert_id = ''4d0f7f44'', fert_name = ''Potassium Chloride'',
              fert_n = 0, fert_p = 0, fert_k = 60\<rparr>"

definition request_ex :: CalculateMixParams where
  "request_ex = \<lparr>targetN = 32, targetP = 23, targetK = 0, totalWeight = 1000,
                  tolerance = 5, increment = 10, availableFertilizers = 0\<rparr>"

definition store_ex :: store where
  "store_ex = \<lparr>params_heap = (\<lambda>_. request_ex),
                fert_heap = (\<lambda>r. if r = 0 then urea else if r = 1 then dap else potash),
                array_heap = (\<lambda>a. if a = 0 then [0, 1, 2] else []),
                next_array = 1\<rparr>"

text \<open>A solver that answers with the blend above.\<close>

definition result_ex :: glpk_result where
  "result_ex = \<lparr>status = GLP_OPT,
                 vars = [''x0'' \<mapsto> 500, ''z0'' \<mapsto> 50, ''y0'' \<mapsto> 1,
                         ''x1'' \<mapsto> 500, ''z1'' \<mapsto> 50, ''y1'' \<mapsto> 1]\<rparr>"

definition glpk_ex :: glpk where
  "glpk_ex = (\<lambda>lp. Inr result_ex)"

text \<open>A solver that reports a feasible point with all amounts zero.\<close>

definition result_zero :: glpk_result where
  "result_zero = \<lparr>status = GLP_FEAS,
                   vars = [''x0'' \<mapsto> 0, ''z0'' \<mapsto> 0, ''y0'' \<mapsto> 0,
                           ''x1'' \<mapsto> 0, ''z1'' \<mapsto> 0, ''y1'' \<mapsto> 0]\<rparr>"

definition glpk_zero :: glpk where
  "glpk_zero = (\<lambda>lp. Inr result_zero)"

text \<open>An assignment that gives ingredient 0 an amount of 5 and leaves it unused.\<close>

definition sigma_unused :: "string \<Rightarrow> real" where
  "sigma_unused = (\<lambda>name. if name = ''x0'' then 5 else 0)"

text \<open>An assignment for the blend above.\<close>

definition sigma_ex :: "string \<Rightarrow> real" where
  "sigma_ex = (\<lambda>name. if name = ''x0'' \<or> name = ''x1'' then 500
                       else if name = ''z0'' \<or> name = ''z1'' then 50
                       else if name = ''y0'' \<or> name = ''y1'' then 1 else 0)"

text \<open>The same request with a total weight of 0, over an empty array of candidates.\<close>

definition store_empty :: store where
  "store_empty = \<lparr>params_heap = (\<lambda>_. request_ex\<lparr>totalWeight := 0\<rparr>),
                   fert_heap = (\<lambda>_. urea),
                   array_heap = (\<lambda>_. []),
                   next_array = 1\<rparr>"

text \<open>The same request with a total weight of 0, over the three fertilizers.\<close>

definition store_weightless :: store where
  "store_weightless = store_ex\<lparr>params_heap := (\<lambda>_. request_ex\<lparr>totalWeight := 0\<rparr>)\<rparr>"

text \<open>A fertilizer as the form of the application can produce it, which does not
  refuse a negative percentage, and a store whose only candidate it is.\<close>

definition negative_k :: Fertilizer where
  "negative_k = \<lparr>fert_id = ''f1'', fert_name = ''Typo'', fert_n = 10, fert_p = 5, fert_k = -1\<rparr>"

definition store_negative :: store where
  "store_negative = \<lparr>params_heap = (\<lambda>_. request_ex),
                      fert_heap = (\<lambda>_. negative_k),
                      array_heap = (\<lambda>a. if a = 0 then [0] else []),
                      next_array = 1\<rparr>"

section \<open>Auxiliary facts\<close>

subsection \<open>The pre-filter and the structure of \<open>calculateMix\<close>\<close>

lemma prefilter_eq:
  "prefilter params s =
     (next_array s,
      s\<lparr>array_heap := (array_heap s)(next_array s :=
            filter (\<lambda>r. filter_callback (params_heap s params) (fert_heap s r))
              (array_heap s (availableFertilizers (params_heap s params)))),
        next_array := Suc (next_array s)\<rparr>)"
  by (simp add: prefilter_def array_filter_def new_array_def Let_def)

lemma survivors_eq:
  "survivors params s =
     filter (\<lambda>r. filter_callback (params_heap s params) (fert_heap s r))
       (array_heap s (availableFertilizers (params_heap s params)))"
  by (simp add: survivors_def prefilter_eq)

lemma fert_heap_prefilter: "fert_heap (snd (prefilter params s)) = fert_heap s"
  by (simp add: prefilter_eq)

lemma calculateMix_eq:
  "calculateMix GLPK params s =
     (if survivors params s = []
      then Inr (failure ''No fertilizers selected for mixing.'')
      else if totalWeight (params_heap s params) \<le> 0 \<or> increment (params_heap s params) \<le> 0
      then Inr (failure ''Total weight and increment must be positive.'')
      else
        (case GLPK of
           Inl err \<Rightarrow> Inl err
         | Inr glpk \<Rightarrow>
             (case glpk (submitted_lp params s) of
                Inl err \<Rightarrow> Inr (catch_result err)
              | Inr result \<Rightarrow> Inr (read_result s (survivors params s) result))),
      snd (prefilter params s))"
proof -
  have rd: "read_result (snd (prefilter params s)) rs result = read_result s rs result" for rs result
    by (simp add: read_result_def tally_of_def collect_def fert_heap_prefilter)
  show ?thesis
    by (simp add: calculateMix_def Let_def split_beta survivors_def [symmetric] submitted_lp_def
        fert_heap_prefilter rd split: sum.splits)
qed

lemma filter_callback_iff:
  "filter_callback pr f =
     ((targetN pr = 0 \<longrightarrow> fert_n f \<le> 0) \<and>
      (targetP pr = 0 \<longrightarrow> fert_p f \<le> 0) \<and>
      (targetK pr = 0 \<longrightarrow> fert_k f \<le> 0))"
  by (auto simp: filter_callback_def)

subsection \<open>The accumulators of the result reader\<close>

lemma epsilon_pos: "0 < epsilon"
  by (simp add: epsilon_def)

lemma collect_recipe:
  "t_recipe (fold (collect s vs) irs t) = t_recipe t @ above_epsilon vs irs"
proof (induction irs arbitrary: t)
  case Nil
  show ?case by (simp add: above_epsilon_def)
next
  case (Cons ir irs)
  obtain index r where ir: "ir = (index, r)" by (cases ir)
  have step: "t_recipe (collect s vs (index, r) t) = t_recipe t @ above_epsilon vs [(index, r)]"
    using epsilon_pos by (auto simp: collect_def above_epsilon_def Let_def split: option.splits)
  have app: "above_epsilon vs ((index, r) # irs) = above_epsilon vs [(index, r)] @ above_epsilon vs irs"
    by (simp add: above_epsilon_def)
  show ?case
    by (simp add: ir Cons.IH step app)
qed

lemma collect_totals:
  assumes "t_actualWeight t = weight_total (t_recipe t)"
    and "actualN t = nutrient_total s fert_n (t_recipe t)"
    and "actualP t = nutrient_total s fert_p (t_recipe t)"
    and "actualK t = nutrient_total s fert_k (t_recipe t)"
  shows "t_actualWeight (fold (collect s vs) irs t) = weight_total (t_recipe (fold (collect s vs) irs t))
    \<and> actualN (fold (collect s vs) irs t) = nutrient_total s fert_n (t_recipe (fold (collect s vs) irs t))
    \<and> actualP (fold (collect s vs) irs t) = nutrient_total s fert_p (t_recipe (fold (collect s vs) irs t))
    \<and> actualK (fold (collect s vs) irs t) = nutrient_total s fert_k (t_recipe (fold (collect s vs) irs t))"
  using assms
proof (induction irs arbitrary: t)
  case Nil
  then show ?case by simp
next
  case (Cons ir irs)
  obtain index r where ir: "ir = (index, r)" by (cases ir)
  let ?t = "collect s vs (index, r) t"
  have "t_actualWeight ?t = weight_total (t_recipe ?t)"
    "actualN ?t = nutrient_total s fert_n (t_recipe ?t)"
    "actualP ?t = nutrient_total s fert_p (t_recipe ?t)"
    "actualK ?t = nutrient_total s fert_k (t_recipe ?t)"
    using Cons.prems
    by (auto simp: collect_def Let_def weight_total_def nutrient_total_def split: option.splits)
  from Cons.IH [OF this] show ?case
    by (simp add: ir)
qed

lemma above_epsilon_amount: "item \<in> set (above_epsilon vs irs) \<Longrightarrow> epsilon < amount item"
  by (auto simp: above_epsilon_def split: option.splits if_splits)

lemma above_epsilon_fertilizer: "item \<in> set (above_epsilon vs irs) \<Longrightarrow> fertilizer item \<in> snd ` set irs"
  by (force simp: above_epsilon_def split: option.splits if_splits)

lemma tally_recipe: "t_recipe (tally_of s vs rs) = above_epsilon vs (enumerate 0 rs)"
  by (simp add: tally_of_def collect_recipe)

lemma finalRecipe_tally: "finalRecipe (tally_of s vs rs) = above_epsilon vs (enumerate 0 rs)"
  by (simp add: finalRecipe_def tally_recipe above_epsilon_amount)

lemma tally_totals:
  "t_actualWeight (tally_of s vs rs) = weight_total (above_epsilon vs (enumerate 0 rs))"
  "actualN (tally_of s vs rs) = nutrient_total s fert_n (above_epsilon vs (enumerate 0 rs))"
  "actualP (tally_of s vs rs) = nutrient_total s fert_p (above_epsilon vs (enumerate 0 rs))"
  "actualK (tally_of s vs rs) = nutrient_total s fert_k (above_epsilon vs (enumerate 0 rs))"
  using collect_totals [of "\<lparr>t_recipe = [], actualN = 0, actualP = 0, actualK = 0, t_actualWeight = 0\<rparr>" s vs "enumerate 0 rs"]
  by (simp_all add: tally_of_def weight_total_def nutrient_total_def tally_recipe [unfolded tally_of_def])

lemma weight_total_pos:
  assumes pos: "\<forall>item \<in> set r. 0 < amount item" and ne: "r \<noteq> []"
  shows "0 < weight_total r"
proof -
  obtain x xs where r: "r = x # xs"
    using ne by (cases r) auto
  have "0 \<le> sum_list (map amount xs)"
    by (rule sum_list_nonneg) (use pos r in \<open>auto simp: less_imp_le\<close>)
  moreover have "0 < amount x"
    using pos r by simp
  ultimately show ?thesis
    by (simp add: weight_total_def r add_pos_nonneg)
qed

lemma js_percentage:
  "(w = 0 \<longrightarrow> a = 0) \<Longrightarrow> js_or (js_times (js_div a w) 100) 0 = Fin (spec_percentage a w)"
  by (auto simp: js_div_def spec_percentage_def)

lemma finalNPK_tally:
  "finalNPK (tally_of s vs rs) =
     (let r = above_epsilon vs (enumerate 0 rs) in
      \<lparr>npk_n = Fin (spec_percentage (nutrient_total s fert_n r) (weight_total r)),
       npk_p = Fin (spec_percentage (nutrient_total s fert_p r) (weight_total r)),
       npk_k = Fin (spec_percentage (nutrient_total s fert_k r) (weight_total r))\<rparr>)"
proof -
  let ?r = "above_epsilon vs (enumerate 0 rs)"
  have z: "weight_total ?r = 0 \<longrightarrow> nutrient_total s pct ?r = 0" for pct
  proof (cases "?r = []")
    case True
    then show ?thesis by (simp add: nutrient_total_def)
  next
    case False
    have "\<forall>item \<in> set ?r. 0 < amount item"
      using above_epsilon_amount epsilon_pos by (metis less_trans)
    from weight_total_pos [OF this False] show ?thesis by simp
  qed
  show ?thesis
    by (simp add: finalNPK_def tally_totals Let_def js_percentage z)
qed

lemma read_result_success:
  assumes "status result = GLP_OPT \<or> status result = GLP_FEAS"
  shows "read_result s rs result =
     (let r = above_epsilon (vars result) (enumerate 0 rs) in
      \<lparr>recipe = Some r, error = None,
       actualNPK = Some
         \<lparr>npk_n = Fin (spec_percentage (nutrient_total s fert_n r) (weight_total r)),
          npk_p = Fin (spec_percentage (nutrient_total s fert_p r) (weight_total r)),
          npk_k = Fin (spec_percentage (nutrient_total s fert_k r) (weight_total r))\<rparr>,
       actualWeight = Some (weight_total r)\<rparr>)"
  using assms by (simp add: read_result_def Let_def finalRecipe_tally finalNPK_tally tally_totals)

lemma read_result_failure:
  assumes "\<not> (status result = GLP_OPT \<or> status result = GLP_FEAS)"
  shows "recipe (read_result s rs result) = None"
  using assms by (simp add: read_result_def failure_def)

lemma success_cases:
  assumes "fst (calculateMix GLPK params s) = Inr res" and "recipe res = Some r"
  shows "\<exists>glpk result. GLPK = Inr glpk \<and> glpk (submitted_lp params s) = Inr result
      \<and> (status result = GLP_OPT \<or> status result = GLP_FEAS)
      \<and> survivors params s \<noteq> []
      \<and> 0 < totalWeight (params_heap s params) \<and> 0 < increment (params_heap s params)
      \<and> res = read_result s (survivors params s) result"
proof -
  have rf: "status result = GLP_OPT \<or> status result = GLP_FEAS"
    if "recipe (read_result s (survivors params s) result) = Some r" for result
    using that read_result_failure [of result s "survivors params s"] by fastforce
  show ?thesis
    using assms
    by (auto simp: calculateMix_eq failure_def catch_result_def split: if_splits sum.splits
        dest: rf)
qed

lemma above_epsilon_nth:
  assumes "index < length rs"
  shows "(\<lparr>fertilizer = rs ! index, amount = v\<rparr> \<in> set (above_epsilon vs (enumerate n rs)) \<and> vs (x_var (n + index)) = Some v)
     = (vs (x_var (n + index)) = Some v \<and> epsilon < v)" (is "?L = ?R")
proof
  assume ?L
  then show ?R
    using above_epsilon_amount [of "\<lparr>fertilizer = rs ! index, amount = v\<rparr>" vs "enumerate n rs"] by simp
next
  assume r: ?R
  have "(n + index, rs ! index) \<in> set (enumerate n rs)"
    using assms by (simp add: in_set_enumerate_eq)
  then show ?L
    using r by (force simp: above_epsilon_def)
qed

lemma above_epsilon_origin:
  assumes "item \<in> set (above_epsilon vs (enumerate n rs))"
  shows "\<exists>index < length rs. fertilizer item = rs ! index
     \<and> vs (x_var (n + index)) = Some (amount item) \<and> epsilon < amount item"
  using assms
  by (auto simp: above_epsilon_def in_set_enumerate_eq split: option.splits if_splits)
     (metis add_diff_cancel_left' le_add_diff_inverse less_diff_conv2 add.commute)

subsection \<open>The constraints of the program\<close>

lemma fertilizer_constraints_names:
  assumes "c \<in> set (fertilizer_constraints pr index)"
  shows "c_name c \<noteq> ''c_N_tolerance'' \<and> c_name c \<noteq> ''c_P_tolerance'' \<and> c_name c \<noteq> ''c_K_tolerance''"
  using assms
  by (auto simp: fertilizer_constraints_def c_increment_def c_bigM_upper_def c_bigM_lower_def Let_def)

lemma filter_fertilizer_constraints:
  assumes "nm = ''c_N_tolerance'' \<or> nm = ''c_P_tolerance'' \<or> nm = ''c_K_tolerance''"
  shows "filter (\<lambda>c. c_name c = nm)
           (concat (map (\<lambda>(index, _). fertilizer_constraints pr index) irs)) = []"
  using assms fertilizer_constraints_names
  by (fastforce simp: filter_empty_conv)

lemma is_constraint_necessary_iff:
  "is_constraint_necessary pct target fs = (target \<noteq> 0 \<or> (\<exists>f \<in> set fs. pct f \<noteq> 0))"
  by (auto simp: is_constraint_necessary_def list_all_iff)

lemma tolerance_names:
  "c_name (c_N_tolerance pr fs) = ''c_N_tolerance''"
  "c_name (c_P_tolerance pr fs) = ''c_P_tolerance''"
  "c_name (c_K_tolerance pr fs) = ''c_K_tolerance''"
  "c_name (c_total_weight pr fs) = ''c_total_weight''"
  by (simp_all add: c_N_tolerance_def c_P_tolerance_def c_K_tolerance_def c_tolerance_def
      c_total_weight_def Let_def)

lemma subjectTo_build_lp:
  "subjectTo (build_lp pr fs) =
     concat (map (\<lambda>(index, _). fertilizer_constraints pr index) (enumerate 0 fs))
     @ [c_total_weight pr fs]
     @ (if isNitrogenConstraintNecessary pr fs then [c_N_tolerance pr fs] else [])
     @ (if isPhosphorusConstraintNecessary pr fs then [c_P_tolerance pr fs] else [])
     @ (if isPotassiumConstraintNecessary pr fs then [c_K_tolerance pr fs] else [])"
  by (simp add: build_lp_def)

lemma filter_tolerance:
  "filter (\<lambda>c. c_name c = ''c_N_tolerance'') (subjectTo (build_lp pr fs)) =
     (if isNitrogenConstraintNecessary pr fs then [c_N_tolerance pr fs] else [])"
  "filter (\<lambda>c. c_name c = ''c_P_tolerance'') (subjectTo (build_lp pr fs)) =
     (if isPhosphorusConstraintNecessary pr fs then [c_P_tolerance pr fs] else [])"
  "filter (\<lambda>c. c_name c = ''c_K_tolerance'') (subjectTo (build_lp pr fs)) =
     (if isPotassiumConstraintNecessary pr fs then [c_K_tolerance pr fs] else [])"
  by (simp_all add: subjectTo_build_lp filter_fertilizer_constraints tolerance_names)

lemma satisfies_tolerance:
  "satisfies \<sigma> (c_tolerance nm pct target pr fs) =
     (totalWeight pr * (target / 100) * (1 - tolerance pr / 100)
        \<le> sum_list (map (\<lambda>(index, f). \<sigma> (x_var index) * (pct f / 100)) (enumerate 0 fs))
      \<and> sum_list (map (\<lambda>(index, f). \<sigma> (x_var index) * (pct f / 100)) (enumerate 0 fs))
        \<le> totalWeight pr * (target / 100) * (1 + tolerance pr / 100))"
proof -
  have "row_value \<sigma> (c_vars (c_tolerance nm pct target pr fs)) =
      sum_list (map (\<lambda>(index, f). \<sigma> (x_var index) * (pct f / 100)) (enumerate 0 fs))"
    by (simp add: row_value_def c_tolerance_def Let_def comp_def split_def mult.commute)
  moreover have "bnds (c_tolerance nm pct target pr fs) =
      \<lparr>bnd_type = GLP_DB,
       lb = Some (totalWeight pr * (target / 100) * (1 - tolerance pr / 100)),
       ub = Some (totalWeight pr * (target / 100) * (1 + tolerance pr / 100))\<rparr>"
    by (simp add: c_tolerance_def Let_def)
  ultimately show ?thesis
    by (simp only: satisfies_def Let_def above_lb_def below_ub_def lp_bnds.simps glp_bnd.simps
        option.simps)
qed

lemma tolerance_double_bounded:
  "bnd_type (bnds (c_tolerance nm pct target pr fs)) = GLP_DB"
  by (simp add: c_tolerance_def Let_def)

lemma fertilizer_constraints_member:
  assumes "index < length fs"
  shows "set (fertilizer_constraints pr index) \<subseteq> set (subjectTo (build_lp pr fs))"
proof -
  have "(index, fs ! index) \<in> set (enumerate 0 fs)"
    using assms by (simp add: in_set_enumerate_eq)
  then show ?thesis
    by (fastforce simp: subjectTo_build_lp)
qed

lemma satisfies_bigM_lower:
  "satisfies \<sigma> (c_bigM_lower index) = (0 \<le> \<sigma> (x_var index) - epsilon * \<sigma> (y_var index))"
  by (simp add: satisfies_def c_bigM_lower_def row_value_def above_lb_def Let_def)

lemma satisfies_bigM_upper:
  "satisfies \<sigma> (c_bigM_upper pr index) = (\<sigma> (x_var index) - totalWeight pr * 2 * \<sigma> (y_var index) \<le> 0)"
  by (simp add: satisfies_def c_bigM_upper_def row_value_def below_ub_def Let_def)

subsection \<open>Failures of the solver\<close>

lemma solve_failures_are_returned:
  "\<exists>res. fst (calculateMix (Inr glpk) params s) = Inr res"
  by (simp add: calculateMix_eq split: sum.splits)

lemma solve_throw_is_reported:
  assumes "survivors params s \<noteq> []"
    and "0 < totalWeight (params_heap s params)" and "0 < increment (params_heap s params)"
    and "glpk (submitted_lp params s) = Inl err"
  shows "fst (calculateMix (Inr glpk) params s) =
     Inr (failure (''An unexpected error occurred during calculation: ''
                   @ (case err of JsError message \<Rightarrow> message | JsValue str \<Rightarrow> str)))"
  using assms by (simp add: calculateMix_eq catch_result_def)

subsection \<open>The requests to evaluate on\<close>

lemma var_names_ex:
  "x_var 0 = ''x0''" "x_var (Suc 0) = ''x1''" "x_var 1 = ''x1''"
  "y_var 0 = ''y0''" "y_var (Suc 0) = ''y1''" "z_var 0 = ''z0''" "z_var (Suc 0) = ''z1''"
  by (simp_all add: x_var_def y_var_def z_var_def show_nat.simps digit_char_def)

lemma survivors_ex: "survivors 0 store_ex = [0, 1]"
  by (simp add: survivors_eq store_ex_def request_ex_def filter_callback_def urea_def dap_def potash_def)

lemma above_epsilon_ex: "above_epsilon (vars result_ex) (enumerate 0 [0, 1]) = [\<lparr>fertilizer = 0, amount = 500\<rparr>, \<lparr>fertilizer = 1, amount = 500\<rparr>]"
  by (simp add: above_epsilon_def result_ex_def var_names_ex epsilon_def)

lemma calc_ex: "fst (calculateMix (Inr glpk_ex) 0 store_ex) = Inr (read_result store_ex [0, 1] result_ex)"
  by (simp add: calculateMix_eq survivors_ex glpk_ex_def) (simp add: store_ex_def request_ex_def)

lemma status_ex: "status result_ex = GLP_OPT" by (simp add: result_ex_def)

lemma recipe_ex:
  "recipe (read_result store_ex [0, 1] result_ex) =
     Some [\<lparr>fertilizer = 0, amount = 500\<rparr>, \<lparr>fertilizer = 1, amount = 500\<rparr>]"
  by (simp only: read_result_success [OF disjI1 [OF status_ex]] Let_def above_epsilon_ex CalculationResult.simps)

lemma below_two: "(index::nat) < length [a, b] \<Longrightarrow> index = 0 \<or> index = Suc 0"
  by auto

lemma survivors_weightless: "survivors 0 store_weightless = [0, 1]"
  by (simp add: survivors_eq store_weightless_def store_ex_def request_ex_def filter_callback_def
      urea_def dap_def potash_def)

lemma survivors_empty: "survivors 0 store_empty = []"
  by (simp add: survivors_eq store_empty_def)

lemma enumerate_ex: "enumerate 0 [a, b] = [(0, a), (Suc 0, b)]"
  by simp

lemma submitted_lp_ex: "submitted_lp 0 store_ex = build_lp request_ex [urea, dap]"
  by (simp add: submitted_lp_def survivors_ex) (simp add: store_ex_def)

section \<open>Properties\<close>

subsection \<open>The linking of amount and usage indicator\<close>

text \<open>
  C1, as the source has it. Every program that is built holds, for each surviving
  fertilizer, the lower constraint \<open>x - epsilon * y \<ge> 0\<close> and the upper constraint
  \<open>x - M * y \<le> 0\<close> with \<open>M = totalWeight * 2\<close>. For an assignment with \<open>y\<close> in
  \<open>{0, 1}\<close>, the lower constraint forces \<open>x \<ge> epsilon\<close> when \<open>y = 1\<close>; that \<open>y = 1\<close>
  whenever \<open>x\<close> exceeds \<open>epsilon\<close> is forced by the upper constraint.
\<close>

theorem usage_linking:
  assumes "index < length fs" and "\<sigma> (y_var index) = 0 \<or> \<sigma> (y_var index) = 1"
  shows "c_bigM_lower index \<in> set (subjectTo (build_lp pr fs))
     \<and> c_bigM_upper pr index \<in> set (subjectTo (build_lp pr fs))
     \<and> satisfies \<sigma> (c_bigM_lower index) = (0 \<le> \<sigma> (x_var index) - epsilon * \<sigma> (y_var index))
     \<and> satisfies \<sigma> (c_bigM_upper pr index)
         = (\<sigma> (x_var index) - totalWeight pr * 2 * \<sigma> (y_var index) \<le> 0)
     \<and> (satisfies \<sigma> (c_bigM_lower index) \<and> \<sigma> (y_var index) = 1 \<longrightarrow> epsilon \<le> \<sigma> (x_var index))
     \<and> (satisfies \<sigma> (c_bigM_upper pr index) \<and> epsilon < \<sigma> (x_var index) \<longrightarrow> \<sigma> (y_var index) = 1)"
proof -
  have m: "c_bigM_lower index \<in> set (subjectTo (build_lp pr fs))"
    "c_bigM_upper pr index \<in> set (subjectTo (build_lp pr fs))"
    using fertilizer_constraints_member [OF assms(1), of pr]
    by (auto simp: fertilizer_constraints_def)
  have lo: "satisfies \<sigma> (c_bigM_lower index) \<and> \<sigma> (y_var index) = 1 \<longrightarrow> epsilon \<le> \<sigma> (x_var index)"
    by (auto simp: satisfies_bigM_lower)
  have up: "satisfies \<sigma> (c_bigM_upper pr index) \<and> epsilon < \<sigma> (x_var index) \<longrightarrow> \<sigma> (y_var index) = 1"
    using assms(2) epsilon_pos by (auto simp: satisfies_bigM_upper)
  from m lo up show ?thesis
    by (simp add: satisfies_bigM_lower satisfies_bigM_upper)
qed

text \<open>
  The theorem at the first fertilizer of the 32-23-0 blend, with 500 g of it in use.
\<close>

theorem usage_linking_witness:
  "(0::nat) < length [urea, dap]
   \<and> (sigma_ex (y_var 0) = 0 \<or> sigma_ex (y_var 0) = 1)
   \<and> satisfies sigma_ex (c_bigM_lower 0) \<and> sigma_ex (y_var 0) = 1 \<and> epsilon \<le> sigma_ex (x_var 0)
   \<and> satisfies sigma_ex (c_bigM_upper request_ex 0) \<and> epsilon < sigma_ex (x_var 0)
   \<and> c_bigM_lower 0 \<in> set (subjectTo (build_lp request_ex [urea, dap]))"
proof -
  have l: "(0::nat) < length [urea, dap]"
    by simp
  have y: "sigma_ex (y_var 0) = 1" and x: "sigma_ex (x_var 0) = 500"
    by (simp_all add: sigma_ex_def var_names_ex)
  then have y': "sigma_ex (y_var 0) = 0 \<or> sigma_ex (y_var 0) = 1"
    by simp
  note u = usage_linking [where index = 0 and fs = "[urea, dap]" and \<sigma> = sigma_ex
      and pr = request_ex, OF l y']
  have a: "satisfies sigma_ex (c_bigM_lower 0)"
    using u by (simp add: x y epsilon_def)
  have b: "satisfies sigma_ex (c_bigM_upper request_ex 0)"
    using u by (simp add: x y request_ex_def)
  from u a y have c: "epsilon \<le> sigma_ex (x_var 0)"
    by blast
  have d: "epsilon < sigma_ex (x_var 0)"
    by (simp add: x epsilon_def)
  from u have e: "c_bigM_lower 0 \<in> set (subjectTo (build_lp request_ex [urea, dap]))"
    by blast
  from l y' a y c b d e show ?thesis by blast
qed

text \<open>
  C1 as stated fails: an amount of 5 with the indicator at 0 satisfies the lower
  constraint of the first fertilizer, and the amount exceeds \<open>epsilon\<close>.
\<close>

theorem usage_lower_alone_counterexample:
  "c_bigM_lower 0 \<in> set (subjectTo (submitted_lp 0 store_ex))
   \<and> (sigma_unused (y_var 0) = 0 \<or> sigma_unused (y_var 0) = 1)
   \<and> satisfies sigma_unused (c_bigM_lower 0)
   \<and> epsilon < sigma_unused (x_var 0)
   \<and> sigma_unused (y_var 0) \<noteq> 1"
proof -
  have "c_bigM_lower 0 \<in> set (subjectTo (build_lp request_ex [urea, dap]))"
    using fertilizer_constraints_member [of 0 "[urea, dap]" request_ex]
    by (simp add: fertilizer_constraints_def)
  moreover have "sigma_unused (y_var 0) = 0" "sigma_unused (x_var 0) = 5"
    by (simp_all add: sigma_unused_def var_names_ex)
  ultimately show ?thesis
    by (simp add: submitted_lp_ex satisfies_bigM_lower epsilon_def)
qed

subsection \<open>Exceptions\<close>

text \<open>
  C2 fails on the code. A throw of \<open>glpk.solve\<close> is caught and returned as an error
  message that ends with its cause, and with a solver at hand \<open>calculateMix\<close> always
  returns a result (the two facts on the failures of the solver above). But
  \<open>await GLPK()\<close> at line 51 stands before the \<open>try\<close>: when it throws for a request that
  passed the checks, the exception leaves \<open>calculateMix\<close>. Here it does for the request
  for the 32-23-0 blend.
\<close>

theorem GLPK_rejection_escapes:
  "survivors 0 store_ex = [0, 1]
   \<and> 0 < totalWeight (params_heap store_ex 0) \<and> 0 < increment (params_heap store_ex 0)
   \<and> fst (calculateMix (Inl (JsError ''failed to load glpk.wasm'')) 0 store_ex)
       = Inl (JsError ''failed to load glpk.wasm'')"
  by (simp add: calculateMix_eq survivors_ex) (simp add: store_ex_def request_ex_def)

subsection \<open>Validation of the parameters\<close>

text \<open>
  C3, as the source has it. The check of the filtered list comes first: a request with
  \<open>totalWeight \<le> 0\<close> or \<open>increment \<le> 0\<close> gets the message that total weight and
  increment must be positive if some candidate survives the filter, and the message
  that no fertilizers are selected if none does. In both cases the result is the same
  for every \<open>GLPK\<close>: the solver is not asked and no program is built.
\<close>

theorem invalid_parameters:
  assumes "totalWeight (params_heap s params) \<le> 0 \<or> increment (params_heap s params) \<le> 0"
  shows "(survivors params s \<noteq> [] \<longrightarrow>
            fst (calculateMix GLPK params s) = Inr (failure ''Total weight and increment must be positive.''))
     \<and> (survivors params s = [] \<longrightarrow>
            fst (calculateMix GLPK params s) = Inr (failure ''No fertilizers selected for mixing.''))"
  using assms by (simp add: calculateMix_eq)

text \<open>
  The theorem at the request of 0 g over the three fertilizers, and over no candidate.
\<close>

theorem invalid_parameters_witness:
  "(totalWeight (params_heap store_weightless 0) \<le> 0 \<or> increment (params_heap store_weightless 0) \<le> 0)
   \<and> survivors 0 store_weightless \<noteq> []
   \<and> fst (calculateMix (Inr glpk_ex) 0 store_weightless) = Inr (failure ''Total weight and increment must be positive.'')
   \<and> (totalWeight (params_heap store_empty 0) \<le> 0 \<or> increment (params_heap store_empty 0) \<le> 0)
   \<and> survivors 0 store_empty = []
   \<and> fst (calculateMix (Inr glpk_ex) 0 store_empty) = Inr (failure ''No fertilizers selected for mixing.'')"
proof -
  have a: "totalWeight (params_heap store_weightless 0) \<le> 0 \<or> increment (params_heap store_weightless 0) \<le> 0"
    by (simp add: store_weightless_def request_ex_def)
  have b: "survivors 0 store_weightless \<noteq> []"
    by (simp add: survivors_weightless)
  have c: "totalWeight (params_heap store_empty 0) \<le> 0 \<or> increment (params_heap store_empty 0) \<le> 0"
    by (simp add: store_empty_def request_ex_def)
  note d = survivors_empty
  from invalid_parameters [OF a, of "Inr glpk_ex"] invalid_parameters [OF c, of "Inr glpk_ex"] a b c d
  show ?thesis by blast
qed

text \<open>
  C3 as stated fails: with an empty list of candidates and a total weight of 0, the
  result is the failure for the missing candidates, not the one for the parameters.
\<close>

theorem invalid_parameters_counterexample:
  "totalWeight (params_heap store_empty 0) \<le> 0
   \<and> fst (calculateMix (Inr glpk_ex) 0 store_empty) = Inr (failure ''No fertilizers selected for mixing.'')
   \<and> fst (calculateMix (Inr glpk_ex) 0 store_empty) \<noteq> Inr (failure ''Total weight and increment must be positive.'')"
  by (simp add: calculateMix_eq survivors_empty failure_def) (simp add: store_empty_def request_ex_def)

subsection \<open>The feasibility pre-filter\<close>

text \<open>
  C4, as the source has it. The array that the filter returns holds, in their order,
  exactly the candidates whose percentage is not positive for each nutrient whose
  target is exactly zero. For a candidate with no negative percentage that is the
  condition of the specification: the candidate is kept if and only if its percentage
  is zero for each nutrient whose target is exactly zero.
\<close>

theorem prefilter_exact:
  assumes "prefilter params s = (available, s')"
  shows "array_heap s' available =
       filter (\<lambda>r. (targetN (params_heap s params) = 0 \<longrightarrow> fert_n (fert_heap s r) \<le> 0)
                 \<and> (targetP (params_heap s params) = 0 \<longrightarrow> fert_p (fert_heap s r) \<le> 0)
                 \<and> (targetK (params_heap s params) = 0 \<longrightarrow> fert_k (fert_heap s r) \<le> 0))
         (array_heap s (availableFertilizers (params_heap s params)))
     \<and> (\<forall>r \<in> set (array_heap s (availableFertilizers (params_heap s params))).
          0 \<le> fert_n (fert_heap s r) \<and> 0 \<le> fert_p (fert_heap s r) \<and> 0 \<le> fert_k (fert_heap s r) \<longrightarrow>
          (r \<in> set (array_heap s' available)) = spec_prefilter_keeps (params_heap s params) (fert_heap s r))"
proof -
  from assms have a: "array_heap s' available = survivors params s"
    by (simp add: survivors_def)
  show ?thesis
    unfolding a survivors_eq
    by (auto simp: filter_callback_iff spec_prefilter_keeps_def)
qed

text \<open>
  The theorem at the request for the 32-23-0 blend: Potassium Chloride is removed.
\<close>

theorem prefilter_exact_witness:
  "prefilter 0 store_ex = (1, snd (prefilter 0 store_ex))
   \<and> array_heap (snd (prefilter 0 store_ex)) 1 = [0, 1]
   \<and> (2::nat) \<in> set (array_heap store_ex (availableFertilizers (params_heap store_ex 0)))
   \<and> 0 \<le> fert_n (fert_heap store_ex 2) \<and> 0 \<le> fert_p (fert_heap store_ex 2) \<and> 0 \<le> fert_k (fert_heap store_ex 2)
   \<and> (2::nat) \<notin> set (array_heap (snd (prefilter 0 store_ex)) 1)
   \<and> \<not> spec_prefilter_keeps (params_heap store_ex 0) (fert_heap store_ex 2)"
proof -
  have p: "prefilter 0 store_ex = (1, snd (prefilter 0 store_ex))"
    by (simp add: prefilter_eq store_ex_def)
  have m: "(2::nat) \<in> set (array_heap store_ex (availableFertilizers (params_heap store_ex 0)))"
    by (simp add: store_ex_def request_ex_def)
  have n: "0 \<le> fert_n (fert_heap store_ex 2) \<and> 0 \<le> fert_p (fert_heap store_ex 2) \<and> 0 \<le> fert_k (fert_heap store_ex 2)"
    by (simp add: store_ex_def potash_def)
  have k: "\<not> spec_prefilter_keeps (params_heap store_ex 0) (fert_heap store_ex 2)"
    by (simp add: spec_prefilter_keeps_def store_ex_def request_ex_def potash_def)
  have "fst (prefilter 0 store_ex) = 1"
    by (simp add: prefilter_eq store_ex_def)
  with survivors_ex have e: "array_heap (snd (prefilter 0 store_ex)) 1 = [0, 1]"
    by (simp add: survivors_def)
  from prefilter_exact [OF p] m n have "(2 \<in> set (array_heap (snd (prefilter 0 store_ex)) 1))
      = spec_prefilter_keeps (params_heap store_ex 0) (fert_heap store_ex 2)"
    by blast
  with k p m n e show ?thesis by blast
qed

text \<open>
  C4 as stated fails: with a zero target for potassium, a candidate with a potassium
  percentage of -1 is kept, although its percentage is not zero.
\<close>

theorem prefilter_negative_counterexample:
  "array_heap (snd (prefilter 0 store_negative)) (fst (prefilter 0 store_negative)) = [0]
   \<and> targetK (params_heap store_negative 0) = 0
   \<and> fert_k (fert_heap store_negative 0) \<noteq> 0
   \<and> \<not> spec_prefilter_keeps (params_heap store_negative 0) (fert_heap store_negative 0)"
  by (simp add: prefilter_eq spec_prefilter_keeps_def)
     (simp add: store_negative_def request_ex_def negative_k_def filter_callback_def)

subsection \<open>The tolerance constraints\<close>

text \<open>
  C5: for each of the three nutrients, the program holds a constraint of the
  nutrient's name if and only if the target is not zero or some surviving fertilizer
  has a percentage other than zero; there is then one such constraint. It is double
  bounded, and an assignment satisfies it if and only if the sum of
  \<open>amount \<times> pct / 100\<close> over the surviving fertilizers lies between
  \<open>targetAmount \<times> (1 - tol)\<close> and \<open>targetAmount \<times> (1 + tol)\<close>, where \<open>targetAmount\<close> is
  \<open>totalWeight \<times> (target / 100)\<close> and \<open>tol\<close> is \<open>tolerance / 100\<close>.
\<close>

theorem tolerance_constraints:
  "filter (\<lambda>c. c_name c = ''c_N_tolerance'') (subjectTo (build_lp pr fs)) =
     (if targetN pr \<noteq> 0 \<or> (\<exists>f \<in> set fs. fert_n f \<noteq> 0) then [c_N_tolerance pr fs] else [])
   \<and> filter (\<lambda>c. c_name c = ''c_P_tolerance'') (subjectTo (build_lp pr fs)) =
     (if targetP pr \<noteq> 0 \<or> (\<exists>f \<in> set fs. fert_p f \<noteq> 0) then [c_P_tolerance pr fs] else [])
   \<and> filter (\<lambda>c. c_name c = ''c_K_tolerance'') (subjectTo (build_lp pr fs)) =
     (if targetK pr \<noteq> 0 \<or> (\<exists>f \<in> set fs. fert_k f \<noteq> 0) then [c_K_tolerance pr fs] else [])
   \<and> bnd_type (bnds (c_N_tolerance pr fs)) = GLP_DB
   \<and> bnd_type (bnds (c_P_tolerance pr fs)) = GLP_DB
   \<and> bnd_type (bnds (c_K_tolerance pr fs)) = GLP_DB
   \<and> satisfies \<sigma> (c_N_tolerance pr fs) =
     (totalWeight pr * (targetN pr / 100) * (1 - tolerance pr / 100)
        \<le> sum_list (map (\<lambda>(index, f). \<sigma> (x_var index) * (fert_n f / 100)) (enumerate 0 fs))
      \<and> sum_list (map (\<lambda>(index, f). \<sigma> (x_var index) * (fert_n f / 100)) (enumerate 0 fs))
        \<le> totalWeight pr * (targetN pr / 100) * (1 + tolerance pr / 100))
   \<and> satisfies \<sigma> (c_P_tolerance pr fs) =
     (totalWeight pr * (targetP pr / 100) * (1 - tolerance pr / 100)
        \<le> sum_list (map (\<lambda>(index, f). \<sigma> (x_var index) * (fert_p f / 100)) (enumerate 0 fs))
      \<and> sum_list (map (\<lambda>(index, f). \<sigma> (x_var index) * (fert_p f / 100)) (enumerate 0 fs))
        \<le> totalWeight pr * (targetP pr / 100) * (1 + tolerance pr / 100))
   \<and> satisfies \<sigma> (c_K_tolerance pr fs) =
     (totalWeight pr * (targetK pr / 100) * (1 - tolerance pr / 100)
        \<le> sum_list (map (\<lambda>(index, f). \<sigma> (x_var index) * (fert_k f / 100)) (enumerate 0 fs))
      \<and> sum_list (map (\<lambda>(index, f). \<sigma> (x_var index) * (fert_k f / 100)) (enumerate 0 fs))
        \<le> totalWeight pr * (targetK pr / 100) * (1 + tolerance pr / 100))"
  unfolding filter_tolerance
    isNitrogenConstraintNecessary_def isPhosphorusConstraintNecessary_def
    isPotassiumConstraintNecessary_def is_constraint_necessary_iff
    c_N_tolerance_def c_P_tolerance_def c_K_tolerance_def satisfies_tolerance
    tolerance_double_bounded
  by (intro conjI refl)

text \<open>
  The theorem at the 32-23-0 blend over Urea and Diammonium Phosphate: a constraint
  for nitrogen, none for potassium, and 500 g of each fertilizer satisfy those for
  nitrogen and phosphorus.
\<close>

theorem tolerance_constraints_witness:
  "targetN request_ex \<noteq> 0
   \<and> filter (\<lambda>c. c_name c = ''c_N_tolerance'') (subjectTo (build_lp request_ex [urea, dap]))
       = [c_N_tolerance request_ex [urea, dap]]
   \<and> targetK request_ex = 0 \<and> fert_k urea = 0 \<and> fert_k dap = 0
   \<and> filter (\<lambda>c. c_name c = ''c_K_tolerance'') (subjectTo (build_lp request_ex [urea, dap])) = []
   \<and> satisfies sigma_ex (c_N_tolerance request_ex [urea, dap])
   \<and> satisfies sigma_ex (c_P_tolerance request_ex [urea, dap])"
proof -
  have n: "targetN request_ex \<noteq> 0" and k: "targetK request_ex = 0" "fert_k urea = 0" "fert_k dap = 0"
    by (simp_all add: request_ex_def urea_def dap_def)
  note t = tolerance_constraints [of request_ex "[urea, dap]" sigma_ex]
  from t n have a: "filter (\<lambda>c. c_name c = ''c_N_tolerance'') (subjectTo (build_lp request_ex [urea, dap]))
       = [c_N_tolerance request_ex [urea, dap]]"
    by simp
  from t k have b: "filter (\<lambda>c. c_name c = ''c_K_tolerance'') (subjectTo (build_lp request_ex [urea, dap])) = []"
    by simp
  have c: "satisfies sigma_ex (c_N_tolerance request_ex [urea, dap])"
    by (simp only: t enumerate_ex) (simp add: request_ex_def urea_def dap_def sigma_ex_def var_names_ex)
  have d: "satisfies sigma_ex (c_P_tolerance request_ex [urea, dap])"
    by (simp only: t enumerate_ex) (simp add: request_ex_def urea_def dap_def sigma_ex_def var_names_ex)
  from n k a b c d show ?thesis by blast
qed

subsection \<open>A solution without amounts\<close>

text \<open>
  C6: when the solver reports an optimal or a feasible point and no amount variable of a
  surviving fertilizer has a value above \<open>epsilon\<close>, \<open>calculateMix\<close> returns a success:
  the recipe is the empty list, no error is set, the actual percentages are 0 and the
  actual weight is 0.
\<close>

theorem trivial_solution_is_success:
  assumes "survivors params s \<noteq> []"
    and "0 < totalWeight (params_heap s params)" and "0 < increment (params_heap s params)"
    and "glpk (submitted_lp params s) = Inr result"
    and "status result = GLP_OPT \<or> status result = GLP_FEAS"
    and "\<forall>index < length (survivors params s). \<forall>v. vars result (x_var index) = Some v \<longrightarrow> v \<le> epsilon"
  shows "fst (calculateMix (Inr glpk) params s) =
     Inr \<lparr>recipe = Some [], error = None,
          actualNPK = Some \<lparr>npk_n = Fin 0, npk_p = Fin 0, npk_k = Fin 0\<rparr>,
          actualWeight = Some 0\<rparr>"
proof -
  have "above_epsilon (vars result) (enumerate 0 (survivors params s)) = []"
  proof (rule ccontr)
    assume "above_epsilon (vars result) (enumerate 0 (survivors params s)) \<noteq> []"
    then obtain item where "item \<in> set (above_epsilon (vars result) (enumerate 0 (survivors params s)))"
      by (cases "above_epsilon (vars result) (enumerate 0 (survivors params s))") auto
    from above_epsilon_origin [OF this] assms(6) show False
      by fastforce
  qed
  then show ?thesis
    using assms(1-5)
    by (simp add: calculateMix_eq read_result_success Let_def weight_total_def nutrient_total_def
        spec_percentage_def)
qed

text \<open>
  The theorem at the request for the 32-23-0 blend, with a solver that answers with
  zero amounts.
\<close>

theorem trivial_solution_is_success_witness:
  "survivors 0 store_ex = [0, 1]
   \<and> 0 < totalWeight (params_heap store_ex 0) \<and> 0 < increment (params_heap store_ex 0)
   \<and> glpk_zero (submitted_lp 0 store_ex) = Inr result_zero
   \<and> status result_zero = GLP_FEAS
   \<and> vars result_zero (x_var 0) = Some 0 \<and> vars result_zero (x_var 1) = Some 0
   \<and> (0::real) \<le> epsilon
   \<and> fst (calculateMix (Inr glpk_zero) 0 store_ex) =
     Inr \<lparr>recipe = Some [], error = None,
          actualNPK = Some \<lparr>npk_n = Fin 0, npk_p = Fin 0, npk_k = Fin 0\<rparr>,
          actualWeight = Some 0\<rparr>"
proof -
  have h2: "survivors 0 store_ex \<noteq> []"
    by (simp add: survivors_ex)
  have h3: "0 < totalWeight (params_heap store_ex 0)" and h4: "0 < increment (params_heap store_ex 0)"
    by (simp_all add: store_ex_def request_ex_def)
  have h5: "glpk_zero (submitted_lp 0 store_ex) = Inr result_zero"
    by (simp add: glpk_zero_def)
  have h6: "status result_zero = GLP_FEAS"
    by (simp add: result_zero_def)
  then have h6': "status result_zero = GLP_OPT \<or> status result_zero = GLP_FEAS" ..
  have v: "vars result_zero (x_var 0) = Some 0" "vars result_zero (x_var 1) = Some 0"
    by (simp_all add: var_names_ex result_zero_def)
  have e: "(0::real) \<le> epsilon"
    by (simp add: epsilon_def)
  have h7: "\<forall>index < length (survivors 0 store_ex). \<forall>v. vars result_zero (x_var index) = Some v \<longrightarrow> v \<le> epsilon"
    unfolding survivors_ex using v e by (auto simp: less_Suc_eq)
  from trivial_solution_is_success
         [where glpk = glpk_zero and params = 0 and s = store_ex and result = result_zero,
          OF h2 h3 h4 h5 h6' h7] survivors_ex h3 h4 h5 h6 v e
  show ?thesis by blast
qed

subsection \<open>The actual percentages\<close>

text \<open>
  C7: in every success result, the actual weight is the sum of the amounts of the
  recipe, which is what \<open>actualWeight\<close> has accumulated, and each actual percentage is
  the finite number (accumulated total of the nutrient / actual weight) \<times> 100, or 0
  when the actual weight is 0; it is never \<open>NaN\<close> and never infinite.
\<close>

theorem actual_percentages:
  assumes "fst (calculateMix GLPK params s) = Inr res" and "recipe res = Some r"
  shows "actualWeight res = Some (weight_total r)
     \<and> actualNPK res = Some
         \<lparr>npk_n = Fin (spec_percentage (nutrient_total s fert_n r) (weight_total r)),
          npk_p = Fin (spec_percentage (nutrient_total s fert_p r) (weight_total r)),
          npk_k = Fin (spec_percentage (nutrient_total s fert_k r) (weight_total r))\<rparr>
     \<and> (\<exists>glpk result. GLPK = Inr glpk \<and> glpk (submitted_lp params s) = Inr result
         \<and> t_actualWeight (tally_of s (vars result) (survivors params s)) = weight_total r
         \<and> actualN (tally_of s (vars result) (survivors params s)) = nutrient_total s fert_n r
         \<and> actualP (tally_of s (vars result) (survivors params s)) = nutrient_total s fert_p r
         \<and> actualK (tally_of s (vars result) (survivors params s)) = nutrient_total s fert_k r)"
proof -
  from success_cases [OF assms] obtain glpk result where
    g: "GLPK = Inr glpk" "glpk (submitted_lp params s) = Inr result"
    and ok: "status result = GLP_OPT \<or> status result = GLP_FEAS"
    and res: "res = read_result s (survivors params s) result"
    by blast
  from assms(2) have r: "r = above_epsilon (vars result) (enumerate 0 (survivors params s))"
    by (simp add: res read_result_success [OF ok] Let_def)
  have "actualWeight res = Some (weight_total r)"
    by (simp add: res read_result_success [OF ok] Let_def r)
  moreover have "actualNPK res = Some
         \<lparr>npk_n = Fin (spec_percentage (nutrient_total s fert_n r) (weight_total r)),
          npk_p = Fin (spec_percentage (nutrient_total s fert_p r) (weight_total r)),
          npk_k = Fin (spec_percentage (nutrient_total s fert_k r) (weight_total r))\<rparr>"
    by (simp add: res read_result_success [OF ok] Let_def r)
  ultimately show ?thesis
    using g by (simp add: tally_totals r)
qed

text \<open>
  The theorem at the request for the 32-23-0 blend: 1000 g at 32, 23 and 0 percent.
\<close>

theorem actual_percentages_witness:
  "fst (calculateMix (Inr glpk_ex) 0 store_ex) = Inr (read_result store_ex [0, 1] result_ex)
   \<and> recipe (read_result store_ex [0, 1] result_ex) = Some [\<lparr>fertilizer = 0, amount = 500\<rparr>, \<lparr>fertilizer = 1, amount = 500\<rparr>]
   \<and> actualWeight (read_result store_ex [0, 1] result_ex) = Some 1000
   \<and> actualNPK (read_result store_ex [0, 1] result_ex) = Some \<lparr>npk_n = Fin 32, npk_p = Fin 23, npk_k = Fin 0\<rparr>"
proof -
  have w: "weight_total [\<lparr>fertilizer = 0, amount = 500\<rparr>, \<lparr>fertilizer = 1, amount = 500\<rparr>] = 1000"
    by (simp add: weight_total_def)
  have n: "nutrient_total store_ex fert_n [\<lparr>fertilizer = 0, amount = 500\<rparr>, \<lparr>fertilizer = 1, amount = 500\<rparr>] = 320"
    "nutrient_total store_ex fert_p [\<lparr>fertilizer = 0, amount = 500\<rparr>, \<lparr>fertilizer = 1, amount = 500\<rparr>] = 230"
    "nutrient_total store_ex fert_k [\<lparr>fertilizer = 0, amount = 500\<rparr>, \<lparr>fertilizer = 1, amount = 500\<rparr>] = 0"
    by (simp_all add: nutrient_total_def store_ex_def urea_def dap_def)
  have p: "spec_percentage 320 1000 = 32" "spec_percentage 230 1000 = 23" "spec_percentage 0 1000 = 0"
    by (simp_all add: spec_percentage_def)
  from actual_percentages [OF calc_ex recipe_ex]
  have "actualWeight (read_result store_ex [0, 1] result_ex) = Some 1000
     \<and> actualNPK (read_result store_ex [0, 1] result_ex) = Some \<lparr>npk_n = Fin 32, npk_p = Fin 23, npk_k = Fin 0\<rparr>"
    by (simp only: w n p)
  with calc_ex recipe_ex show ?thesis by blast
qed

subsection \<open>The entries of the recipe\<close>

text \<open>
  C8: in every success result, the recipe holds, in the order of the surviving
  fertilizers, one entry for each of them whose amount variable has a value above
  \<open>epsilon\<close>, with that value as its amount, and nothing else; so a surviving fertilizer
  is in the recipe with the value of its variable if and only if that value exceeds
  \<open>epsilon\<close>, and no entry has an amount of \<open>epsilon\<close> or less.
\<close>

theorem recipe_entries:
  assumes "fst (calculateMix GLPK params s) = Inr res" and "recipe res = Some r"
  shows "\<exists>glpk result. GLPK = Inr glpk \<and> glpk (submitted_lp params s) = Inr result
     \<and> r = above_epsilon (vars result) (enumerate 0 (survivors params s))
     \<and> (\<forall>index < length (survivors params s). \<forall>v.
          (\<lparr>fertilizer = survivors params s ! index, amount = v\<rparr> \<in> set r
             \<and> vars result (x_var index) = Some v)
          = (vars result (x_var index) = Some v \<and> epsilon < v))
     \<and> (\<forall>item \<in> set r. \<exists>index < length (survivors params s).
          fertilizer item = survivors params s ! index
          \<and> vars result (x_var index) = Some (amount item))
     \<and> (\<forall>item \<in> set r. epsilon < amount item)"
proof -
  from success_cases [OF assms] obtain glpk result where
    g: "GLPK = Inr glpk" "glpk (submitted_lp params s) = Inr result"
    and ok: "status result = GLP_OPT \<or> status result = GLP_FEAS"
    and res: "res = read_result s (survivors params s) result"
    by blast
  from assms(2) have r: "r = above_epsilon (vars result) (enumerate 0 (survivors params s))"
    by (simp add: res read_result_success [OF ok] Let_def)
  have a: "\<forall>index < length (survivors params s). \<forall>v.
          (\<lparr>fertilizer = survivors params s ! index, amount = v\<rparr> \<in> set r
             \<and> vars result (x_var index) = Some v)
          = (vars result (x_var index) = Some v \<and> epsilon < v)"
    using above_epsilon_nth [of _ "survivors params s" _ "vars result" 0] by (simp add: r)
  have b: "\<forall>item \<in> set r. \<exists>index < length (survivors params s).
          fertilizer item = survivors params s ! index
          \<and> vars result (x_var index) = Some (amount item)"
    using above_epsilon_origin [of _ "vars result" 0 "survivors params s"] unfolding r by fastforce
  have c: "\<forall>item \<in> set r. epsilon < amount item"
    using above_epsilon_amount unfolding r by blast
  from g r a b c show ?thesis by blast
qed

text \<open>
  The theorem at the request for the 32-23-0 blend.
\<close>

theorem recipe_entries_witness:
  "fst (calculateMix (Inr glpk_ex) 0 store_ex) = Inr (read_result store_ex [0, 1] result_ex)
   \<and> recipe (read_result store_ex [0, 1] result_ex) = Some [\<lparr>fertilizer = 0, amount = 500\<rparr>, \<lparr>fertilizer = 1, amount = 500\<rparr>]
   \<and> epsilon < amount \<lparr>fertilizer = 0, amount = 500\<rparr>
   \<and> epsilon < amount \<lparr>fertilizer = 1, amount = 500\<rparr>"
proof -
  from recipe_entries [OF calc_ex recipe_ex]
  have "\<forall>item \<in> set [\<lparr>fertilizer = 0, amount = 500\<rparr>, \<lparr>fertilizer = 1, amount = 500::real\<rparr>]. epsilon < amount item"
    by blast
  then have "epsilon < amount \<lparr>fertilizer = 0, amount = 500\<rparr>" "epsilon < amount \<lparr>fertilizer = 1, amount = 500\<rparr>"
    by simp_all
  with calc_ex recipe_ex show ?thesis by blast
qed

subsection \<open>Removed fertilizers stay out of the recipe\<close>

text \<open>
  C9: whatever the solver does, the fertilizer of every entry of a returned recipe is
  one of the fertilizers that survived the pre-filter: it is in the filtered list, it
  comes from the array of the request, and the callback of the filter accepts it.
\<close>

theorem recipe_within_survivors:
  assumes "fst (calculateMix GLPK params s) = Inr res" and "recipe res = Some r"
    and "item \<in> set r"
  shows "fertilizer item \<in> set (survivors params s)
    \<and> fertilizer item \<in> set (array_heap s (availableFertilizers (params_heap s params)))
    \<and> filter_callback (params_heap s params) (fert_heap s (fertilizer item))"
proof -
  from success_cases [OF assms(1,2)] obtain glpk result where
    ok: "status result = GLP_OPT \<or> status result = GLP_FEAS"
    and res: "res = read_result s (survivors params s) result"
    by blast
  from assms(2) have "r = above_epsilon (vars result) (enumerate 0 (survivors params s))"
    by (simp add: res read_result_success [OF ok] Let_def)
  with assms(3) above_epsilon_fertilizer have "fertilizer item \<in> snd ` set (enumerate 0 (survivors params s))"
    by blast
  also have "snd ` set (enumerate 0 (survivors params s)) = set (map snd (enumerate 0 (survivors params s)))"
    by (simp only: set_map)
  finally have "fertilizer item \<in> set (survivors params s)"
    by (simp only: map_snd_enumerate)
  then show ?thesis
    by (auto simp: survivors_eq)
qed

text \<open>
  The theorem at the request for the 32-23-0 blend and the entry for Diammonium
  Phosphate.
\<close>

theorem recipe_within_survivors_witness:
  "fst (calculateMix (Inr glpk_ex) 0 store_ex) = Inr (read_result store_ex [0, 1] result_ex)
   \<and> recipe (read_result store_ex [0, 1] result_ex) = Some [\<lparr>fertilizer = 0, amount = 500\<rparr>, \<lparr>fertilizer = 1, amount = 500\<rparr>]
   \<and> \<lparr>fertilizer = 1, amount = 500\<rparr> \<in> set [\<lparr>fertilizer = 0, amount = 500\<rparr>, \<lparr>fertilizer = 1, amount = 500\<rparr>]
   \<and> fertilizer \<lparr>fertilizer = 1, amount = 500\<rparr> \<in> set (survivors 0 store_ex)
   \<and> filter_callback (params_heap store_ex 0) (fert_heap store_ex (fertilizer \<lparr>fertilizer = 1, amount = 500\<rparr>))"
proof -
  have m: "\<lparr>fertilizer = 1, amount = 500\<rparr> \<in> set [\<lparr>fertilizer = 0, amount = 500\<rparr>, \<lparr>fertilizer = 1, amount = 500\<rparr>]"
    by simp
  from recipe_within_survivors [OF calc_ex recipe_ex m] calc_ex recipe_ex m
  show ?thesis by blast
qed

subsection \<open>The store after the call\<close>

text \<open>
  C10: \<open>calculateMix\<close> does not change what it is given. After the call, every params
  object and every \<open>Fertilizer\<close> object is as before, and so is every array that
  existed before the call; the only write goes to a new array, which holds the
  fertilizers that survived the filter.
\<close>

theorem calculateMix_frame:
  assumes "calculateMix GLPK params s = (out, s')"
  shows "params_heap s' = params_heap s \<and> fert_heap s' = fert_heap s
    \<and> (\<forall>a < next_array s. array_heap s' a = array_heap s a)
    \<and> (availableFertilizers (params_heap s params) < next_array s \<longrightarrow>
         array_heap s' (availableFertilizers (params_heap s' params))
           = array_heap s (availableFertilizers (params_heap s params)))
    \<and> array_heap s' (next_array s) = survivors params s"
  using assms by (auto simp: calculateMix_eq prefilter_eq survivors_eq)

text \<open>
  The theorem at the request for the 32-23-0 blend: the array of the three candidates
  is unchanged and the filtered array is a new one.
\<close>

theorem calculateMix_frame_witness:
  "calculateMix (Inr glpk_ex) 0 store_ex
     = (fst (calculateMix (Inr glpk_ex) 0 store_ex), snd (calculateMix (Inr glpk_ex) 0 store_ex))
   \<and> availableFertilizers (params_heap store_ex 0) < next_array store_ex
   \<and> array_heap (snd (calculateMix (Inr glpk_ex) 0 store_ex)) 0 = [0, 1, 2]
   \<and> fert_heap (snd (calculateMix (Inr glpk_ex) 0 store_ex)) 2 = potash
   \<and> params_heap (snd (calculateMix (Inr glpk_ex) 0 store_ex)) 0 = request_ex
   \<and> array_heap (snd (calculateMix (Inr glpk_ex) 0 store_ex)) 1 = [0, 1]"
proof -
  have i: "availableFertilizers (params_heap store_ex 0) < next_array store_ex"
    by (simp add: store_ex_def request_ex_def)
  have v: "array_heap store_ex 0 = [0, 1, 2]" "next_array store_ex = 1"
    "fert_heap store_ex 2 = potash" "params_heap store_ex 0 = request_ex"
    by (simp_all add: store_ex_def)
  from calculateMix_frame [OF prod.collapse [symmetric], of "Inr glpk_ex" 0 store_ex] i
  show ?thesis
    by (simp add: v survivors_ex)
qed

end
